theory Spec2Isabelle
  imports Complex_Main
begin

section \<open>Syntax trees\<close>

text \<open>
  The checks of \<^verbatim>\<open>smells.js\<close> work on the tree that \<^verbatim>\<open>@babel/parser\<close> returns. A tree
  node is a JavaScript object; the nesting check reads its \<^verbatim>\<open>type\<close>, its
  \<^verbatim>\<open>loc.start.line\<close>, its \<^verbatim>\<open>arguments\<close>, its \<^verbatim>\<open>body\<close> and then walks over every
  other key. The datatype keeps exactly these parts:

  \<^item> \<open>ntype\<close> is the \<^verbatim>\<open>type\<close> tag; the empty string stands for an object that has no
    (truthy) \<^verbatim>\<open>type\<close>, such as \<^verbatim>\<open>extra\<close>;
  \<^item> \<open>loc\<close> is \<^verbatim>\<open>loc.start.line\<close>, \<open>None\<close> when the node has no \<^verbatim>\<open>loc\<close>;
  \<^item> \<open>arguments\<close> is the \<^verbatim>\<open>arguments\<close> array, \<open>None\<close> when the key is absent;
  \<^item> \<open>body\<close> is absent, a single node, or an array of nodes: the three shapes the
    parser stores under this key (it never stores \<^verbatim>\<open>null\<close> or a primitive value there);
  \<^item> \<open>others\<close> lists the remaining keys in the order \<^verbatim>\<open>for (let key in node)\<close> visits
    them. A value is an object (\<open>CNode\<close>), an array (\<open>CArr\<close>), or anything else
    (\<open>COther\<close>: strings, numbers, booleans, \<^verbatim>\<open>null\<close>, \<^verbatim>\<open>undefined\<close>, functions).
\<close>

datatype node = Node (ntype: string) (loc: "nat option") (arguments: "node list option")
                     (body: bodyslot) (others: "(string \<times> child) list")
and bodyslot = NoBody | BodyNode node | BodyArr "node list"
and child = CNode node | CArr "node list" | COther

section \<open>Nested Callbacks: the nesting depth analyzer\<close>

text \<open>
  An issue of this check is \<^verbatim>\<open>{line, description}\<close>; the description is a fixed sentence
  around \<^verbatim>\<open>maxAllowedDepth\<close> and the current depth, so the record keeps the depth.
  The traversal state is the \<^verbatim>\<open>issues\<close> array of the enclosing scope together with the
  \<^verbatim>\<open>reportedLines\<close> set that every recursive call receives by reference.
\<close>

record nestingIssue =
  line :: nat
  depth :: nat

record traversal =
  issues :: "nestingIssue list"
  reportedLines :: "nat set"

definition maxAllowedDepth :: nat where
  "maxAllowedDepth = 3"

definition isFunctionNode :: "string \<Rightarrow> bool" where
  "isFunctionNode t \<longleftrightarrow>
     t = ''FunctionDeclaration'' \<or> t = ''FunctionExpression'' \<or> t = ''ArrowFunctionExpression''"

definition nodeLine :: "nat option \<Rightarrow> nat" where
  "nodeLine l = (case l of Some n \<Rightarrow> n | None \<Rightarrow> 0)"

definition report :: "nat option \<Rightarrow> nat \<Rightarrow> traversal \<Rightarrow> traversal" where
  "report l d st =
     (let reportLine = nodeLine l in
      if reportLine \<notin> reportedLines st
      then st\<lparr>reportedLines := insert reportLine (reportedLines st),
              issues := issues st @ [\<lparr>line = reportLine, depth = d\<rparr>]\<rparr>
      else st)"

text \<open>
  \<^verbatim>\<open>detectNestedClosures(node, depth, reportedLines)\<close>. The increment \<^verbatim>\<open>depth++\<close> changes
  the local copy only, so it is the value \<open>d\<close> below. The three loops of the body are
  \<open>forEachArgument\<close> (\<^verbatim>\<open>node.arguments.forEach\<close>), \<open>forEachBody\<close>
  (\<^verbatim>\<open>node.body.forEach\<close>) and \<open>forEachKey\<close> (\<^verbatim>\<open>for (let key in node)\<close>).
\<close>

function detectNestedClosures :: "node \<Rightarrow> nat \<Rightarrow> traversal \<Rightarrow> traversal"
and forEachArgument :: "node list \<Rightarrow> nat \<Rightarrow> traversal \<Rightarrow> traversal"
and forEachBody :: "node list \<Rightarrow> nat \<Rightarrow> traversal \<Rightarrow> traversal"
and forEachKey :: "(string \<times> child) list \<Rightarrow> nat \<Rightarrow> traversal \<Rightarrow> traversal"
where
  "detectNestedClosures (Node t l args b ks) d0 st =
     (let d = (if isFunctionNode t then d0 + 1 else d0);
          st1 = (if d > maxAllowedDepth then report l d st else st);
          st2 = (if t = ''CallExpression''
                 then (case args of Some as \<Rightarrow> forEachArgument as d st1 | None \<Rightarrow> st1)
                 else st1);
          st3 = (case b of
                   BodyArr ns \<Rightarrow> forEachBody ns d st2
                 | BodyNode n \<Rightarrow> detectNestedClosures n d st2
                 | NoBody \<Rightarrow> st2)
      in forEachKey ks d st3)"
| "forEachArgument [] d st = st"
| "forEachArgument (a # as) d st =
     forEachArgument as d
       (if ntype a = ''FunctionExpression'' \<or> ntype a = ''ArrowFunctionExpression''
        then detectNestedClosures a d st else st)"
| "forEachBody [] d st = st"
| "forEachBody (c # cs) d st = forEachBody cs d (detectNestedClosures c d st)"
| "forEachKey [] d st = st"
| "forEachKey ((k, v) # ks) d st =
     forEachKey ks d
       (case v of
          CNode n \<Rightarrow>
            if k \<noteq> ''body'' \<and> k \<noteq> ''arguments'' \<and> ntype n \<noteq> ''''
            then detectNestedClosures n d st else st
        | CArr ns \<Rightarrow> st
        | COther \<Rightarrow> st)"
  by pat_completeness auto
termination
  by (relation "measure (\<lambda>x. case x of
        Inl (Inl (n, _, _)) \<Rightarrow> size n
      | Inl (Inr (ns, _, _)) \<Rightarrow> size_list size ns
      | Inr (Inl (ns, _, _)) \<Rightarrow> size_list size ns
      | Inr (Inr (ks, _, _)) \<Rightarrow> size_list (size_prod (\<lambda>_. 0) size) ks)") auto

text \<open>
  The top-level call \<^verbatim>\<open>detectNestedClosures(ast.program)\<close> takes the default arguments:
  depth \<open>0\<close> and a fresh, empty set; the check then returns \<^verbatim>\<open>issues\<close>.
\<close>

definition nestingIssues :: "node \<Rightarrow> nestingIssue list" where
  "nestingIssues tree =
     issues (detectNestedClosures tree 0 \<lparr>issues = [], reportedLines = {}\<rparr>)"

subsection \<open>Notions used to state the properties of the analyzer\<close>

text \<open>
  \<open>nestDepth\<close> is the function nesting of a whole tree: the largest number of
  function-like nodes on a path from the root, where a path may go through every child,
  whatever key or array holds it.
\<close>

function nestDepth :: "node \<Rightarrow> nat"
and nestDepthList :: "node list \<Rightarrow> nat"
and nestDepthKeys :: "(string \<times> child) list \<Rightarrow> nat"
where
  "nestDepth (Node t l args b ks) =
     (if isFunctionNode t then 1 else 0) +
     max (case args of Some as \<Rightarrow> nestDepthList as | None \<Rightarrow> 0)
         (max (case b of BodyArr ns \<Rightarrow> nestDepthList ns | BodyNode n \<Rightarrow> nestDepth n | NoBody \<Rightarrow> 0)
              (nestDepthKeys ks))"
| "nestDepthList [] = 0"
| "nestDepthList (n # ns) = max (nestDepth n) (nestDepthList ns)"
| "nestDepthKeys [] = 0"
| "nestDepthKeys ((k, v) # ks) =
     max (case v of CNode n \<Rightarrow> nestDepth n | CArr ns \<Rightarrow> nestDepthList ns | COther \<Rightarrow> 0)
         (nestDepthKeys ks)"
  by pat_completeness auto
termination
  by (relation "measure (\<lambda>x. case x of
        Inl n \<Rightarrow> size n
      | Inr (Inl ns) \<Rightarrow> size_list size ns
      | Inr (Inr ks) \<Rightarrow> size_list (size_prod (\<lambda>_. 0) size) ks)") auto

text \<open>
  \<open>prune\<close> removes from a tree everything the traversal does not descend into: the
  arguments of a node that is not a call expression, the call arguments that are not a
  function expression or an arrow function, the arrays under keys other than
  \<^verbatim>\<open>body\<close>, and the values that are not objects with a \<^verbatim>\<open>type\<close>.
\<close>

function prune :: "node \<Rightarrow> node"
and pruneArguments :: "node list \<Rightarrow> node list"
and pruneBody :: "node list \<Rightarrow> node list"
and pruneKeys :: "(string \<times> child) list \<Rightarrow> (string \<times> child) list"
where
  "prune (Node t l args b ks) =
     Node t l
       (if t = ''CallExpression''
        then (case args of Some as \<Rightarrow> Some (pruneArguments as) | None \<Rightarrow> None)
        else None)
       (case b of BodyArr ns \<Rightarrow> BodyArr (pruneBody ns) | BodyNode n \<Rightarrow> BodyNode (prune n)
                | NoBody \<Rightarrow> NoBody)
       (pruneKeys ks)"
| "pruneArguments [] = []"
| "pruneArguments (a # as) =
     (if ntype a = ''FunctionExpression'' \<or> ntype a = ''ArrowFunctionExpression''
      then prune a # pruneArguments as else pruneArguments as)"
| "pruneBody [] = []"
| "pruneBody (c # cs) = prune c # pruneBody cs"
| "pruneKeys [] = []"
| "pruneKeys ((k, v) # ks) =
     (case v of
        CNode n \<Rightarrow>
          if k \<noteq> ''body'' \<and> k \<noteq> ''arguments'' \<and> ntype n \<noteq> ''''
          then (k, CNode (prune n)) # pruneKeys ks else pruneKeys ks
      | CArr ns \<Rightarrow> pruneKeys ks
      | COther \<Rightarrow> pruneKeys ks)"
  by pat_completeness auto
termination
  by (relation "measure (\<lambda>x. case x of
        Inl (Inl n) \<Rightarrow> size n
      | Inl (Inr ns) \<Rightarrow> size_list size ns
      | Inr (Inl ns) \<Rightarrow> size_list size ns
      | Inr (Inr ks) \<Rightarrow> size_list (size_prod (\<lambda>_. 0) size) ks)") auto

text \<open>
  The steps of one call of \<open>detectNestedClosures\<close>, named for the proofs, and the
  invariant of the traversal state: the reported lines are the lines of the issues, each
  held once.
\<close>

definition enterDepth :: "string \<Rightarrow> nat \<Rightarrow> nat" where
  "enterDepth t d0 = (if isFunctionNode t then d0 + 1 else d0)"

definition depthStep :: "nat option \<Rightarrow> nat \<Rightarrow> traversal \<Rightarrow> traversal" where
  "depthStep l d st = (if d > maxAllowedDepth then report l d st else st)"

definition argumentsStep ::
  "string \<Rightarrow> node list option \<Rightarrow> nat \<Rightarrow> traversal \<Rightarrow> traversal" where
  "argumentsStep t args d st =
     (if t = ''CallExpression''
      then (case args of Some as \<Rightarrow> forEachArgument as d st | None \<Rightarrow> st)
      else st)"

definition bodyStep :: "bodyslot \<Rightarrow> nat \<Rightarrow> traversal \<Rightarrow> traversal" where
  "bodyStep b d st =
     (case b of
        BodyArr ns \<Rightarrow> forEachBody ns d st
      | BodyNode n \<Rightarrow> detectNestedClosures n d st
      | NoBody \<Rightarrow> st)"

definition linesConsistent :: "traversal \<Rightarrow> bool" where
  "linesConsistent st \<longleftrightarrow>
     reportedLines st = set (map line (issues st)) \<and> distinct (map line (issues st))"

section \<open>Duplicate Code: block extraction and the similarity engine\<close>

text \<open>
  Strings are lists of characters; one \<open>char\<close> stands for one code unit of a JavaScript
  string, so \<open>length\<close> is \<^verbatim>\<open>.length\<close> and the texts covered are those over the code units
  0 to 255. \<open>levenshteinDistance\<close> is defined for lists over any type. Numbers are
  JavaScript doubles in the source; the lengths and distances are naturals here and the
  similarity is a real number, the exact value of the quotient that the source rounds to
  a double.
\<close>

definition MIN_DUPLICATE_LENGTH :: nat where
  "MIN_DUPLICATE_LENGTH = 5"

definition SIMILARITY_THRESHOLD :: real where
  "SIMILARITY_THRESHOLD = 8 / 10"

text \<open>
  \<^verbatim>\<open>traverse(ast, {enter(path) ...})\<close> and \<^verbatim>\<open>generate(path.node)\<close> belong to Babel. What
  the callback reads of a node it enters is its \<^verbatim>\<open>type\<close>, \<^verbatim>\<open>loc?.start.line\<close>,
  \<^verbatim>\<open>id?.name\<close> and the generated \<^verbatim>\<open>code\<close>; \<open>enteredNode\<close> holds these four.
\<close>

record enteredNode =
  etype :: string
  eloc :: "nat option"
  ename :: "string option"
  generated :: string

record codeBlock =
  code :: string
  btype :: string
  name :: string

text \<open>
  An element of a \<^verbatim>\<open>matches\<close> entry is either the triple \<^verbatim>\<open>[i + 1, j + 1, text]\<close> that the
  line loop pushes, or one of the two strings of \<^verbatim>\<open>[[str1, str2]]\<close> that the shortcut
  for identical strings returns. \<open>jsValue\<close> is what indexing such an element yields.
\<close>

datatype matchEntry = LinePair nat nat string | Text string

datatype jsValue = Num nat | Str string | Undefined

record analysis =
  similarity :: real
  matches :: "matchEntry list list"

text \<open>
  \<^verbatim>\<open>str.split("\n")\<close> and \<^verbatim>\<open>line.trim()\<close>. \<open>isWhiteSpace\<close> holds of the white space and
  line terminator code units below 256: tab, line feed, vertical tab, form feed, carriage
  return, space and no-break space.
\<close>

fun splitFrom :: "string \<Rightarrow> string \<Rightarrow> string list" where
  "splitFrom cur [] = [cur]"
| "splitFrom cur (c # cs) =
     (if c = CHR 0x0A then cur # splitFrom [] cs else splitFrom (cur @ [c]) cs)"

definition splitLines :: "string \<Rightarrow> string list" where
  "splitLines s = splitFrom [] s"

definition isWhiteSpace :: "char \<Rightarrow> bool" where
  "isWhiteSpace c \<longleftrightarrow>
     c = CHR 0x09 \<or> c = CHR 0x0A \<or> c = CHR 0x0B \<or> c = CHR 0x0C \<or> c = CHR 0x0D \<or>
     c = CHR 0x20 \<or> c = CHR 0xA0"

definition trim :: "string \<Rightarrow> string" where
  "trim s = rev (dropWhile isWhiteSpace (rev (dropWhile isWhiteSpace s)))"

text \<open>
  The line loop of \<^verbatim>\<open>analyzeSimilarity\<close>. Its state is \<^verbatim>\<open>currentMatch\<close> and
  \<^verbatim>\<open>matches\<close>; \<open>compareLines\<close> is the body of the inner loop at indices \<open>i\<close>, \<open>j\<close>.
\<close>

type_synonym lineState = "matchEntry list \<times> matchEntry list list"

definition compareLines :: "string list \<Rightarrow> string list \<Rightarrow> nat \<Rightarrow> nat \<Rightarrow> lineState \<Rightarrow> lineState" where
  "compareLines lines1 lines2 i j st =
     (case st of (currentMatch, ms) \<Rightarrow>
        if trim (lines1 ! i) = trim (lines2 ! j)
        then (currentMatch @ [LinePair (i + 1) (j + 1) (trim (lines1 ! i))], ms)
        else if length currentMatch > 0
        then (if length currentMatch \<ge> 2 then ([], ms @ [currentMatch]) else ([], ms))
        else (currentMatch, ms))"

definition lineLoop :: "string list \<Rightarrow> string list \<Rightarrow> lineState" where
  "lineLoop lines1 lines2 =
     fold (\<lambda>i. fold (\<lambda>j. compareLines lines1 lines2 i j) [0..<length lines2])
          [0..<length lines1] ([], [])"

text \<open>
  \<^verbatim>\<open>levenshteinDistance(str1, str2)\<close>. The matrix is addressed as \<^verbatim>\<open>matrix[j][i]\<close>, row
  \<open>j\<close> over \<^verbatim>\<open>str2\<close> and column \<open>i\<close> over \<^verbatim>\<open>str1\<close>; it starts filled with \<^verbatim>\<open>null\<close>
  (\<open>None\<close>), which JavaScript arithmetic reads as \<open>0\<close>. \<open>fillCell\<close> is the body of
  the inner loop.
\<close>

type_synonym matrix = "nat \<Rightarrow> nat \<Rightarrow> nat option"

definition cell :: "matrix \<Rightarrow> nat \<Rightarrow> nat \<Rightarrow> nat" where
  "cell m j i = (case m j i of Some v \<Rightarrow> v | None \<Rightarrow> 0)"

definition setCell :: "matrix \<Rightarrow> nat \<Rightarrow> nat \<Rightarrow> nat \<Rightarrow> matrix" where
  "setCell m j i v = m(j := (m j)(i := Some v))"

definition fillCell :: "'a list \<Rightarrow> 'a list \<Rightarrow> nat \<Rightarrow> nat \<Rightarrow> matrix \<Rightarrow> matrix" where
  "fillCell str1 str2 j i m =
     (let indicator = (if str1 ! (i - 1) = str2 ! (j - 1) then 0 else 1) in
      setCell m j i
        (min (cell m j (i - 1) + 1)
          (min (cell m (j - 1) i + 1)
               (cell m (j - 1) (i - 1) + indicator))))"

definition levenshteinDistance :: "'a list \<Rightarrow> 'a list \<Rightarrow> nat" where
  "levenshteinDistance str1 str2 =
     (let m0 = (\<lambda>j i. None);
          m1 = fold (\<lambda>i m. setCell m 0 i i) [0..<length str1 + 1] m0;
          m2 = fold (\<lambda>j m. setCell m j 0 j) [0..<length str2 + 1] m1;
          m3 = fold (\<lambda>j. fold (\<lambda>i. fillCell str1 str2 j i) [1..<length str1 + 1])
                    [1..<length str2 + 1] m2
      in cell m3 (length str2) (length str1))"

text \<open>\<^verbatim>\<open>analyzeSimilarity(str1, str2)\<close>.\<close>

definition longer :: "string \<Rightarrow> string \<Rightarrow> string" where
  "longer str1 str2 = (if length str1 > length str2 then str1 else str2)"

definition shorter :: "string \<Rightarrow> string \<Rightarrow> string" where
  "shorter str1 str2 = (if length str1 > length str2 then str2 else str1)"

definition analyzeSimilarity :: "string \<Rightarrow> string \<Rightarrow> analysis" where
  "analyzeSimilarity str1 str2 =
     (if str1 = str2 then \<lparr>similarity = 1, matches = [[Text str1, Text str2]]\<rparr>
      else if length str1 < MIN_DUPLICATE_LENGTH \<or> length str2 < MIN_DUPLICATE_LENGTH
      then \<lparr>similarity = 0, matches = []\<rparr>
      else
        (let lines1 = splitLines str1;
             lines2 = splitLines str2;
             ms = snd (lineLoop lines1 lines2);
             longerLength = length (longer str1 str2);
             distance = levenshteinDistance (longer str1 str2) (shorter str1 str2)
         in \<lparr>similarity = (real longerLength - real distance) / real longerLength,
             matches = ms\<rparr>))"

text \<open>
  \<^verbatim>\<open>codeBlocks\<close> is a \<^verbatim>\<open>Map\<close> from start line to block. A \<^verbatim>\<open>Map\<close> iterates in
  insertion order and \<^verbatim>\<open>set\<close> on a key that is present replaces the value in place,
  which is \<open>mapSet\<close> on an association list. \<open>enter\<close> is the callback of the
  traversal and \<open>collectBlocks\<close> runs it over the nodes in the order Babel enters them.
\<close>

fun mapSet :: "nat \<Rightarrow> codeBlock \<Rightarrow> (nat \<times> codeBlock) list \<Rightarrow> (nat \<times> codeBlock) list" where
  "mapSet k v [] = [(k, v)]"
| "mapSet k v ((k', v') # rest) =
     (if k' = k then (k, v) # rest else (k', v') # mapSet k v rest)"

definition isBlockNode :: "string \<Rightarrow> bool" where
  "isBlockNode t \<longleftrightarrow>
     t = ''FunctionDeclaration'' \<or> t = ''ClassMethod'' \<or> t = ''ArrowFunctionExpression''"

definition location :: "enteredNode \<Rightarrow> nat" where
  "location n = (case eloc n of Some l \<Rightarrow> l | None \<Rightarrow> 0)"

definition blockOf :: "enteredNode \<Rightarrow> codeBlock" where
  "blockOf n =
     \<lparr>code = generated n, btype = etype n,
      name = (case ename n of Some s \<Rightarrow> if s = [] then ''anonymous'' else s
              | None \<Rightarrow> ''anonymous'')\<rparr>"

definition enter :: "enteredNode \<Rightarrow> (nat \<times> codeBlock) list \<Rightarrow> (nat \<times> codeBlock) list" where
  "enter n codeBlocks =
     (if isBlockNode (etype n)
      then (if length (generated n) \<ge> MIN_DUPLICATE_LENGTH
            then mapSet (location n) (blockOf n) codeBlocks
            else codeBlocks)
      else codeBlocks)"

definition collectBlocks :: "enteredNode list \<Rightarrow> (nat \<times> codeBlock) list" where
  "collectBlocks nodes = fold enter nodes []"

text \<open>
  \<^verbatim>\<open>[loc1, loc2].sort().join("-")\<close>: without a comparator \<^verbatim>\<open>sort\<close> orders the two numbers
  by their decimal strings, code unit by code unit.
\<close>

function toString :: "nat \<Rightarrow> string" where
  "toString n =
     (if n < 10 then [''0123456789'' ! n]
      else toString (n div 10) @ [''0123456789'' ! (n mod 10)])"
  by pat_completeness auto
termination
  by (relation "measure id") auto

declare toString.simps [simp del]

fun stringLess :: "string \<Rightarrow> string \<Rightarrow> bool" where
  "stringLess [] [] = False"
| "stringLess [] (y # ys) = True"
| "stringLess (x # xs) [] = False"
| "stringLess (x # xs) (y # ys) =
     (if (of_char x :: nat) < of_char y then True
      else if (of_char y :: nat) < of_char x then False
      else stringLess xs ys)"

definition pairKey :: "nat \<Rightarrow> nat \<Rightarrow> string" where
  "pairKey loc1 loc2 =
     (let sorted = (if stringLess (toString loc2) (toString loc1)
                    then [loc2, loc1] else [loc1, loc2])
      in toString (sorted ! 0) @ ''-'' @ toString (sorted ! 1))"

text \<open>
  The issue that the pair loop pushes. \<open>percent\<close> is \<^verbatim>\<open>Math.round(similarity * 100)\<close> of
  the description; the \<^verbatim>\<open>message\<close> text is built from \<^verbatim>\<open>lineMapping\<close> alone and is left
  out. \<open>entryAt m k\<close> is \<^verbatim>\<open>m[k]\<close>.
\<close>

fun entryAt :: "matchEntry \<Rightarrow> nat \<Rightarrow> jsValue" where
  "entryAt (LinePair i j s) k =
     (if k = 0 then Num i else if k = 1 then Num j else if k = 2 then Str s else Undefined)"
| "entryAt (Text s) k = (if k < length s then Str [s ! k] else Undefined)"

record lineMapping =
  block1Lines :: "jsValue list"
  block2Lines :: "jsValue list"
  codeLines :: "jsValue list"

record blockRef =
  startLine :: nat
  rtype :: string
  rname :: string

record duplicateIssue =
  dline :: nat
  percent :: int
  block1 :: blockRef
  block2 :: blockRef
  similarLines :: "lineMapping list"

definition toLineMapping :: "matchEntry list \<Rightarrow> lineMapping" where
  "toLineMapping match =
     \<lparr>block1Lines = map (\<lambda>m. entryAt m 0) match,
      block2Lines = map (\<lambda>m. entryAt m 1) match,
      codeLines = map (\<lambda>m. entryAt m 2) match\<rparr>"

text \<open>
  The two nested \<^verbatim>\<open>codeBlocks.forEach\<close> loops; \<open>comparePair\<close> is the body of the inner
  one, on the state \<^verbatim>\<open>processedPairs\<close> and \<^verbatim>\<open>issues\<close> (\<open>dupIssues\<close>).
\<close>

type_synonym pairState = "string set \<times> duplicateIssue list"

definition comparePair :: "nat \<times> codeBlock \<Rightarrow> nat \<times> codeBlock \<Rightarrow> pairState \<Rightarrow> pairState" where
  "comparePair e1 e2 st =
     (case (e1, e2, st) of ((loc1, blk1), (loc2, blk2), (processedPairs, dupIssues)) \<Rightarrow>
        if loc1 \<noteq> loc2
        then (if pairKey loc1 loc2 \<notin> processedPairs
              then (let a = analyzeSimilarity (code blk1) (code blk2) in
                    (insert (pairKey loc1 loc2) processedPairs,
                     if similarity a \<ge> SIMILARITY_THRESHOLD
                     then dupIssues @
                       [\<lparr>dline = min loc1 loc2,
                         percent = \<lfloor>similarity a * 100 + 1 / 2\<rfloor>,
                         block1 = \<lparr>startLine = loc1, rtype = btype blk1, rname = name blk1\<rparr>,
                         block2 = \<lparr>startLine = loc2, rtype = btype blk2, rname = name blk2\<rparr>,
                         similarLines = map toLineMapping (matches a)\<rparr>]
                     else dupIssues))
              else (processedPairs, dupIssues))
        else (processedPairs, dupIssues))"

definition compareBlocks :: "(nat \<times> codeBlock) list \<Rightarrow> duplicateIssue list" where
  "compareBlocks codeBlocks =
     snd (fold (\<lambda>e1. fold (\<lambda>e2. comparePair e1 e2) codeBlocks) codeBlocks ({}, []))"

text \<open>
  The recurrence that the loops of \<open>levenshteinDistance\<close> fill in: \<open>cellValue str1 str2 j i\<close>
  is the value of \<^verbatim>\<open>matrix[j][i]\<close> once it is written. \<open>rowsFilled\<close> and \<open>rowFilling\<close>
  are the invariants of the outer and of the inner loop.
\<close>

fun cellValue :: "'a list \<Rightarrow> 'a list \<Rightarrow> nat \<Rightarrow> nat \<Rightarrow> nat" where
  "cellValue str1 str2 0 i = i"
| "cellValue str1 str2 (Suc j) 0 = Suc j"
| "cellValue str1 str2 (Suc j) (Suc i) =
     min (cellValue str1 str2 (Suc j) i + 1)
       (min (cellValue str1 str2 j (Suc i) + 1)
            (cellValue str1 str2 j i + (if str1 ! i = str2 ! j then 0 else 1)))"

definition rowsFilled :: "'a list \<Rightarrow> 'a list \<Rightarrow> matrix \<Rightarrow> nat \<Rightarrow> bool" where
  "rowsFilled str1 str2 m J \<longleftrightarrow>
     (\<forall>j i. j < J \<and> i \<le> length str1 \<longrightarrow> m j i = Some (cellValue str1 str2 j i)) \<and>
     (\<forall>j. j \<le> length str2 \<longrightarrow> m j 0 = Some (cellValue str1 str2 j 0))"

definition rowFilling :: "'a list \<Rightarrow> 'a list \<Rightarrow> matrix \<Rightarrow> nat \<Rightarrow> nat \<Rightarrow> bool" where
  "rowFilling str1 str2 m J I \<longleftrightarrow>
     rowsFilled str1 str2 m J \<and> (\<forall>i. i < I \<longrightarrow> m J i = Some (cellValue str1 str2 J i))"

text \<open>
  \<open>recorded n\<close> says that \<open>enter\<close> stores the node \<open>n\<close>, and \<open>fromBlocks bs x\<close> that the two
  block descriptions of the issue \<open>x\<close> are those of two entries of \<open>bs\<close>.
\<close>

definition recorded :: "enteredNode \<Rightarrow> bool" where
  "recorded n \<longleftrightarrow> isBlockNode (etype n) \<and> MIN_DUPLICATE_LENGTH \<le> length (generated n)"

section \<open>The two checks\<close>

text \<open>
  Both checks join the lines, parse the text inside \<^verbatim>\<open>try\<close>, and on a parse error write
  \<^verbatim>\<open>console.error("Error parsing file:", err.message)\<close> and return \<^verbatim>\<open>[]\<close>. The parser
  is a parameter: it yields the message of the error it throws, or the tree. An outcome
  is the array the check returns and the lines it wrote to the console.
\<close>

record ast =
  program :: node

record 'a outcome =
  returned :: "'a list"
  console :: "string list"

fun joinLines :: "string list \<Rightarrow> string" where
  "joinLines [] = []"
| "joinLines [l] = l"
| "joinLines (l # l' # ls) = l @ [CHR 0x0A] @ joinLines (l' # ls)"

definition nestedCallbacksCheck ::
  "(string \<Rightarrow> string + ast) \<Rightarrow> string list \<Rightarrow> nestingIssue outcome" where
  "nestedCallbacksCheck parse lines =
     (case parse (joinLines lines) of
        Inl message \<Rightarrow> \<lparr>returned = [], console = [''Error parsing file: '' @ message]\<rparr>
      | Inr tree \<Rightarrow> \<lparr>returned = nestingIssues (program tree), console = []\<rparr>)"

definition duplicateCodeCheck ::
  "(string \<Rightarrow> string + ast) \<Rightarrow> (ast \<Rightarrow> enteredNode list) \<Rightarrow> string list
     \<Rightarrow> duplicateIssue outcome" where
  "duplicateCodeCheck parse traverse lines =
     (case parse (joinLines lines) of
        Inl message \<Rightarrow> \<lparr>returned = [], console = [''Error parsing file: '' @ message]\<rparr>
      | Inr tree \<Rightarrow>
          \<lparr>returned = compareBlocks (collectBlocks (traverse tree)), console = []\<rparr>)"

definition fromBlocks :: "(nat \<times> codeBlock) list \<Rightarrow> duplicateIssue \<Rightarrow> bool" where
  "fromBlocks bs x \<longleftrightarrow>
     (\<exists>e1\<in>set bs. \<exists>e2\<in>set bs.
        block1 x = \<lparr>startLine = fst e1, rtype = btype (snd e1), rname = name (snd e1)\<rparr> \<and>
        block2 x = \<lparr>startLine = fst e2, rtype = btype (snd e2), rname = name (snd e2)\<rparr>)"

section \<open>Example trees\<close>

text \<open>
  Builders for the node shapes of the examples; each keeps the keys of the Babel node that
  hold children. \<open>callbackPyramid\<close> is
  \<^verbatim>\<open>a(function () { b(() => { c(() => { d(); }); }); });\<close> on lines 1 to 4,
  \<open>chainOfFour\<close> is the arrow chain \<^verbatim>\<open>a => b => c => d => {}\<close> on line 1,
  \<open>statementChain\<close> is the file that holds it as an expression statement and
  \<open>constChain\<close> the file \<^verbatim>\<open>const f = a => b => c => d => {};\<close>, and \<open>boundArrows\<close> is
  \<^verbatim>\<open>const a = () => { const b = () => { const c = () => { const d = () => { const e = () => {}; }; }; }; };\<close>
  followed by \<^verbatim>\<open>run({ cb: function () {} });\<close>.
\<close>

definition identifierNode :: "nat \<Rightarrow> node" where
  "identifierNode l = Node ''Identifier'' (Some l) None NoBody [(''name'', COther)]"

definition callExpression :: "nat \<Rightarrow> node \<Rightarrow> node list \<Rightarrow> node" where
  "callExpression l callee args =
     Node ''CallExpression'' (Some l) (Some args) NoBody [(''callee'', CNode callee)]"

definition expressionStatement :: "nat \<Rightarrow> node \<Rightarrow> node" where
  "expressionStatement l e =
     Node ''ExpressionStatement'' (Some l) None NoBody [(''expression'', CNode e)]"

definition blockStatement :: "nat \<Rightarrow> node list \<Rightarrow> node" where
  "blockStatement l stmts =
     Node ''BlockStatement'' (Some l) None (BodyArr stmts) [(''directives'', CArr [])]"

definition arrowFunction :: "nat \<Rightarrow> node \<Rightarrow> node" where
  "arrowFunction l b =
     Node ''ArrowFunctionExpression'' (Some l) None (BodyNode b)
       [(''id'', COther), (''generator'', COther), (''async'', COther), (''params'', CArr [])]"

definition functionExpression :: "nat \<Rightarrow> node \<Rightarrow> node" where
  "functionExpression l b =
     Node ''FunctionExpression'' (Some l) None (BodyNode b)
       [(''id'', COther), (''generator'', COther), (''async'', COther), (''params'', CArr [])]"

definition constDeclaration :: "nat \<Rightarrow> node \<Rightarrow> node" where
  "constDeclaration l init =
     Node ''VariableDeclaration'' (Some l) None NoBody
       [(''declarations'',
           CArr [Node ''VariableDeclarator'' (Some l) None NoBody
                   [(''id'', CNode (identifierNode l)), (''init'', CNode init)]]),
        (''kind'', COther)]"

definition objectWithMethod :: "nat \<Rightarrow> node \<Rightarrow> node" where
  "objectWithMethod l f =
     Node ''ObjectExpression'' (Some l) None NoBody
       [(''properties'',
           CArr [Node ''ObjectProperty'' (Some l) None NoBody
                   [(''key'', CNode (identifierNode l)), (''value'', CNode f)]])]"

definition programOf :: "node list \<Rightarrow> node" where
  "programOf stmts =
     Node ''Program'' (Some 1) None (BodyArr stmts)
       [(''sourceType'', COther), (''interpreter'', COther), (''directives'', CArr [])]"

definition callbackPyramid :: node where
  "callbackPyramid =
     programOf
       [expressionStatement 1 (callExpression 1 (identifierNode 1)
          [functionExpression 1 (blockStatement 1
             [expressionStatement 2 (callExpression 2 (identifierNode 2)
                [arrowFunction 2 (blockStatement 2
                   [expressionStatement 3 (callExpression 3 (identifierNode 3)
                      [arrowFunction 3 (blockStatement 3
                         [expressionStatement 4
                            (callExpression 4 (identifierNode 4) [])])])])])])])]"

definition chainOfFour :: node where
  "chainOfFour =
     arrowFunction 1 (arrowFunction 1 (arrowFunction 1 (arrowFunction 1 (blockStatement 1 []))))"

definition statementChain :: node where
  "statementChain = programOf [expressionStatement 1 chainOfFour]"

definition constChain :: node where
  "constChain = programOf [constDeclaration 1 chainOfFour]"

definition boundArrows :: node where
  "boundArrows =
     programOf
       [constDeclaration 1 (arrowFunction 1 (blockStatement 1
          [constDeclaration 1 (arrowFunction 1 (blockStatement 1
             [constDeclaration 1 (arrowFunction 1 (blockStatement 1
                [constDeclaration 1 (arrowFunction 1 (blockStatement 1
                   [constDeclaration 1 (arrowFunction 1 (blockStatement 1 []))]))]))]))])),
        expressionStatement 2 (callExpression 2 (identifierNode 2)
          [objectWithMethod 2 (functionExpression 2 (blockStatement 2 []))])]"

text \<open>
  Inputs of the duplicate check. \<open>threeArrowCopies\<close> are nodes that the traversal enters
  in a file holding the same arrow function of six lines at lines 1, 8 and 15;
  \<open>blockF\<close> and \<open>blockG\<close> are two function declarations that differ in two names;
  \<open>shortAndTwins\<close> holds a text of four characters and two equal texts; the last three
  nodes all start on line 1, as in \<^verbatim>\<open>class A { run() { return () => 1; } }\<close>.
\<close>

definition exampleAst :: ast where
  "exampleAst = \<lparr>program = programOf []\<rparr>"

definition arrowCopy :: string where
  "arrowCopy = ''() => {\<newline>  load();\<newline>  parse();\<newline>  check();\<newline>  save();\<newline>}''"

definition threeArrowCopies :: "enteredNode list" where
  "threeArrowCopies =
     [\<lparr>etype = ''Identifier'', eloc = Some 1, ename = None, generated = ''first''\<rparr>,
      \<lparr>etype = ''ArrowFunctionExpression'', eloc = Some 1, ename = None, generated = arrowCopy\<rparr>,
      \<lparr>etype = ''Identifier'', eloc = Some 8, ename = None, generated = ''second''\<rparr>,
      \<lparr>etype = ''ArrowFunctionExpression'', eloc = Some 8, ename = None, generated = arrowCopy\<rparr>,
      \<lparr>etype = ''Identifier'', eloc = Some 15, ename = None, generated = ''third''\<rparr>,
      \<lparr>etype = ''ArrowFunctionExpression'', eloc = Some 15, ename = None, generated = arrowCopy\<rparr>]"

definition blockF :: string where
  "blockF = ''function f() {\<newline>  if (a) {\<newline>    b();\<newline>  }\<newline>}''"

definition blockG :: string where
  "blockG = ''function g() {\<newline>  if (a) {\<newline>    c();\<newline>  }\<newline>}''"

definition shortAndTwins :: "enteredNode list" where
  "shortAndTwins =
     [\<lparr>etype = ''ArrowFunctionExpression'', eloc = Some 1, ename = None, generated = ''a=>b''\<rparr>,
      \<lparr>etype = ''FunctionDeclaration'', eloc = Some 2, ename = Some ''f'',
        generated = ''function f() {}''\<rparr>,
      \<lparr>etype = ''ClassMethod'', eloc = Some 6, ename = None,
        generated = ''function f() {}''\<rparr>]"

definition methodOnLine1 :: enteredNode where
  "methodOnLine1 =
     \<lparr>etype = ''ClassMethod'', eloc = Some 1, ename = None,
      generated = ''run() { return () => 1; }''\<rparr>"

definition arrowOnLine1 :: enteredNode where
  "arrowOnLine1 =
     \<lparr>etype = ''ArrowFunctionExpression'', eloc = Some 1, ename = None, generated = ''() => 1''\<rparr>"

definition literalOnLine1 :: enteredNode where
  "literalOnLine1 =
     \<lparr>etype = ''NumericLiteral'', eloc = Some 1, ename = None, generated = ''1''\<rparr>"

section \<open>Properties of the nesting depth analyzer\<close>

lemma detect_node:
  "detectNestedClosures (Node t l args b ks) d0 st =
     forEachKey ks (enterDepth t d0)
       (bodyStep b (enterDepth t d0)
          (argumentsStep t args (enterDepth t d0) (depthStep l (enterDepth t d0) st)))"
  by (simp only: detectNestedClosures.simps Let_def enterDepth_def depthStep_def
        argumentsStep_def bodyStep_def)

lemma ntype_prune: "ntype (prune n) = ntype n"
  by (cases n) simp

lemma detect_prune_all:
  "\<forall>d st. detectNestedClosures (prune n) d st = detectNestedClosures n d st"
  "\<forall>d st. forEachArgument (pruneArguments as) d st = forEachArgument as d st"
  "\<forall>d st. forEachBody (pruneBody cs) d st = forEachBody cs d st"
  "\<forall>d st. forEachKey (pruneKeys ks) d st = forEachKey ks d st"
proof (induction n and as and cs and ks rule: prune_pruneArguments_pruneBody_pruneKeys.induct)
  case (1 t l args b ks)
  have A: "argumentsStep t (if t = ''CallExpression''
        then (case args of Some as \<Rightarrow> Some (pruneArguments as) | None \<Rightarrow> None)
        else None) d st = argumentsStep t args d st" for d st
    using 1(1) by (simp add: argumentsStep_def split: option.splits)
  have B: "bodyStep (case b of BodyArr ns \<Rightarrow> BodyArr (pruneBody ns) | BodyNode n \<Rightarrow> BodyNode (prune n)
                | NoBody \<Rightarrow> NoBody) d st = bodyStep b d st" for d st
    using 1(2,3) by (simp add: bodyStep_def split: bodyslot.splits)
  show ?case
    by (simp only: prune.simps detect_node A B 1(4)) simp
next
  case (3 a as)
  then show ?case by (simp add: ntype_prune del: detectNestedClosures.simps)
next
  case (5 c cs)
  then show ?case by (simp del: detectNestedClosures.simps)
next
  case (7 k v ks)
  then show ?case by (cases v) (simp_all add: ntype_prune del: detectNestedClosures.simps)
qed simp_all

lemma detect_within_all:
  "\<forall>d st. d + nestDepth (prune n) \<le> maxAllowedDepth \<longrightarrow> detectNestedClosures n d st = st"
  "\<forall>d st. d + nestDepthList (pruneArguments as) \<le> maxAllowedDepth \<longrightarrow> forEachArgument as d st = st"
  "\<forall>d st. d + nestDepthList (pruneBody cs) \<le> maxAllowedDepth \<longrightarrow> forEachBody cs d st = st"
  "\<forall>d st. d + nestDepthKeys (pruneKeys ks) \<le> maxAllowedDepth \<longrightarrow> forEachKey ks d st = st"
proof (induction n and as and cs and ks rule: prune_pruneArguments_pruneBody_pruneKeys.induct)
  case (1 t l args b ks)
  show ?case
  proof (intro allI impI)
    fix d st
    assume H: "d + nestDepth (prune (Node t l args b ks)) \<le> maxAllowedDepth"
    let ?e = "enterDepth t d"
    have D: "depthStep l ?e st = st"
      using H by (simp add: depthStep_def enterDepth_def split: if_splits)
    have A: "argumentsStep t args ?e st = st"
      using H 1(1) by (auto simp add: argumentsStep_def enterDepth_def split: option.splits if_splits)
    have B: "bodyStep b ?e st = st"
      using H 1(2,3) by (auto simp add: bodyStep_def enterDepth_def split: bodyslot.splits if_splits)
    have K: "forEachKey ks ?e st = st"
      using H 1(4) by (auto simp add: enterDepth_def split: if_splits)
    show "detectNestedClosures (Node t l args b ks) d st = st"
      by (simp only: detect_node D A B K)
  qed
next
  case (3 a as)
  then show ?case by (auto simp add: ntype_prune simp del: detectNestedClosures.simps)
next
  case (5 c cs)
  then show ?case by (auto simp del: detectNestedClosures.simps)
next
  case (7 k v ks)
  then show ?case by (cases v) (auto simp add: ntype_prune simp del: detectNestedClosures.simps)
qed simp_all

lemma prune_le:
  "nestDepth (prune n) \<le> nestDepth n"
  "nestDepthList (pruneArguments as) \<le> nestDepthList as"
  "nestDepthList (pruneBody cs) \<le> nestDepthList cs"
  "nestDepthKeys (pruneKeys ks) \<le> nestDepthKeys ks"
proof (induction n and as and cs and ks rule: prune_pruneArguments_pruneBody_pruneKeys.induct)
  case (1 t l args b ks)
  have A: "(case (if t = ''CallExpression''
        then (case args of Some as \<Rightarrow> Some (pruneArguments as) | None \<Rightarrow> None)
        else None) of Some as \<Rightarrow> nestDepthList as | None \<Rightarrow> 0)
      \<le> (case args of Some as \<Rightarrow> nestDepthList as | None \<Rightarrow> 0)"
    using 1(1) by (simp split: option.splits)
  have B: "(case (case b of BodyArr ns \<Rightarrow> BodyArr (pruneBody ns) | BodyNode n \<Rightarrow> BodyNode (prune n)
                | NoBody \<Rightarrow> NoBody) of BodyArr ns \<Rightarrow> nestDepthList ns | BodyNode n \<Rightarrow> nestDepth n | NoBody \<Rightarrow> 0)
      \<le> (case b of BodyArr ns \<Rightarrow> nestDepthList ns | BodyNode n \<Rightarrow> nestDepth n | NoBody \<Rightarrow> 0)"
    using 1(2,3) by (simp split: bodyslot.splits)
  show ?case
    unfolding prune.simps nestDepth.simps using A B 1(4) by (intro add_left_mono max.mono)
next
  case (3 a as)
  then show ?case by (auto simp add: max.coboundedI2)
next
  case (5 c cs)
  then show ?case by (auto intro: max.mono)
next
  case (7 k v ks)
  then show ?case by (cases v) (auto intro: max.mono simp add: max.coboundedI2)
qed simp_all

lemma report_consistent: "linesConsistent st \<Longrightarrow> linesConsistent (report l d st)"
  by (auto simp add: report_def Let_def linesConsistent_def)

lemma depthStep_consistent: "linesConsistent st \<Longrightarrow> linesConsistent (depthStep l d st)"
  by (simp add: depthStep_def report_consistent)

lemma detect_consistent_all:
  "\<forall>d st. linesConsistent st \<longrightarrow> linesConsistent (detectNestedClosures n d st)"
  "\<forall>d st. linesConsistent st \<longrightarrow> linesConsistent (forEachArgument as d st)"
  "\<forall>d st. linesConsistent st \<longrightarrow> linesConsistent (forEachBody cs d st)"
  "\<forall>d st. linesConsistent st \<longrightarrow> linesConsistent (forEachKey ks d st)"
proof (induction n and as and cs and ks rule: prune_pruneArguments_pruneBody_pruneKeys.induct)
  case (1 t l args b ks)
  show ?case
  proof (intro allI impI)
    fix d st
    assume H: "linesConsistent st"
    let ?e = "enterDepth t d"
    have A: "linesConsistent s \<Longrightarrow> linesConsistent (argumentsStep t args ?e s)" for s
      using 1(1) by (simp add: argumentsStep_def split: option.splits)
    have B: "linesConsistent s \<Longrightarrow> linesConsistent (bodyStep b ?e s)" for s
      using 1(2,3) by (simp add: bodyStep_def split: bodyslot.splits)
    have K: "linesConsistent s \<Longrightarrow> linesConsistent (forEachKey ks ?e s)" for s
      using 1(4) by simp
    show "linesConsistent (detectNestedClosures (Node t l args b ks) d st)"
      unfolding detect_node by (intro K B A depthStep_consistent H)
  qed
next
  case (3 a as)
  then show ?case by (simp del: detectNestedClosures.simps)
next
  case (5 c cs)
  then show ?case by (simp del: detectNestedClosures.simps)
next
  case (7 k v ks)
  then show ?case by (cases v) (simp_all del: detectNestedClosures.simps)
qed simp_all

lemma detect_within:
  "d + nestDepth (prune n) \<le> maxAllowedDepth \<Longrightarrow> detectNestedClosures n d st = st"
  using detect_within_all(1) by blast

lemma initial_consistent: "linesConsistent \<lparr>issues = [], reportedLines = {}\<rparr>"
  by (simp add: linesConsistent_def)

lemmas example_trees =
  identifierNode_def callExpression_def expressionStatement_def blockStatement_def
  arrowFunction_def functionExpression_def constDeclaration_def objectWithMethod_def
  programOf_def callbackPyramid_def chainOfFour_def statementChain_def constChain_def
  boundArrows_def

lemmas analyzer_eval =
  nestingIssues_def maxAllowedDepth_def isFunctionNode_def report_def nodeLine_def Let_def

text \<open>
  C2. When no function-like node of the tree is nested more than \<open>maxAllowedDepth\<close>
  levels deep, counting every child of every node (bodies, call arguments and all other
  properties), the analyzer returns no violation.
\<close>

theorem shallow_tree_no_violations:
  "nestDepth tree \<le> maxAllowedDepth \<Longrightarrow> nestingIssues tree = []"
proof -
  assume "nestDepth tree \<le> maxAllowedDepth"
  with prune_le(1) [of tree] have "0 + nestDepth (prune tree) \<le> maxAllowedDepth"
    by simp
  then show ?thesis
    by (simp only: nestingIssues_def detect_within traversal.simps)
qed

theorem shallow_tree_no_violations_witness:
  "nestDepth callbackPyramid \<le> maxAllowedDepth \<and> nestDepth callbackPyramid = 3 \<and>
   nestingIssues callbackPyramid = []"
proof -
  have d: "nestDepth callbackPyramid = 3"
    by (simp add: example_trees isFunctionNode_def)
  then have h: "nestDepth callbackPyramid \<le> maxAllowedDepth"
    by (simp add: maxAllowedDepth_def)
  from shallow_tree_no_violations [OF h] d h show ?thesis by simp
qed

lemma violation_lines_distinct: "distinct (map line (nestingIssues tree))"
proof -
  have "linesConsistent (detectNestedClosures tree 0 \<lparr>issues = [], reportedLines = {}\<rparr>)"
    using detect_consistent_all(1) initial_consistent by blast
  then show ?thesis
    by (simp add: linesConsistent_def nestingIssues_def)
qed

text \<open>
  C3. The file \<^verbatim>\<open>const f = a => b => c => d => {};\<close> holds a chain of
  \<open>maxAllowedDepth + 1\<close> nested arrow functions, so its innermost arrow lies at depth 4
  and line 1 triggers. The analyzer reports nothing for it: the chain hangs under the
  \<^verbatim>\<open>declarations\<close> array of the declaration, and \<open>forEachKey\<close> enters no array. The same
  chain as an expression statement is reached through the \<^verbatim>\<open>expression\<close> property and
  is reported once, at line 1 with depth 4.
\<close>

theorem const_bound_chain_not_reported:
  "nestDepth constChain = maxAllowedDepth + 1 \<and>
   nestingIssues constChain = [] \<and>
   nestDepth statementChain = maxAllowedDepth + 1 \<and>
   nestingIssues statementChain = [\<lparr>line = 1, depth = 4\<rparr>]"
  by (simp add: example_trees analyzer_eval)

text \<open>
  C4. The traversal descends only into \<^verbatim>\<open>body\<close>, into the call arguments that are a
  function expression or an arrow function, and into object-valued properties that carry
  a \<^verbatim>\<open>type\<close>: removing everything else from the root (\<open>prune\<close>) does not change the
  result. So when the nesting that is left after pruning stays within
  \<open>maxAllowedDepth\<close>, the analyzer reports nothing, however deep the functions under
  the other arrays and arguments are nested.
\<close>

theorem untraversed_properties_are_ignored:
  "nestingIssues (prune tree) = nestingIssues tree \<and>
   (nestDepth (prune tree) \<le> maxAllowedDepth \<longrightarrow> nestingIssues tree = [])"
proof
  show "nestingIssues (prune tree) = nestingIssues tree"
    by (simp only: nestingIssues_def detect_prune_all(1))
next
  show "nestDepth (prune tree) \<le> maxAllowedDepth \<longrightarrow> nestingIssues tree = []"
  proof
    assume "nestDepth (prune tree) \<le> maxAllowedDepth"
    then have "0 + nestDepth (prune tree) \<le> maxAllowedDepth" by simp
    then show "nestingIssues tree = []"
      by (simp only: nestingIssues_def detect_within traversal.simps)
  qed
qed

theorem untraversed_properties_are_ignored_witness:
  "nestDepth boundArrows = 5 \<and> nestDepth (prune boundArrows) = 0 \<and>
   nestDepth (prune boundArrows) \<le> maxAllowedDepth \<and> nestingIssues boundArrows = []"
proof -
  have d: "nestDepth boundArrows = 5"
    by (simp add: example_trees isFunctionNode_def)
  have p: "nestDepth (prune boundArrows) = 0"
    by (simp add: example_trees isFunctionNode_def)
  then have h: "nestDepth (prune boundArrows) \<le> maxAllowedDepth" by simp
  from untraversed_properties_are_ignored [of boundArrows] d p h show ?thesis by simp
qed

text \<open>
  C6. When the text of a source unit does not parse, each of the two checks returns the
  empty list and writes the parse error to the console; neither of them fails.
\<close>

theorem parse_failure_yields_no_issues:
  "parse (joinLines lines) = Inl message \<Longrightarrow>
   nestedCallbacksCheck parse lines =
     \<lparr>returned = [], console = [''Error parsing file: '' @ message]\<rparr> \<and>
   duplicateCodeCheck parse traverse lines =
     \<lparr>returned = [], console = [''Error parsing file: '' @ message]\<rparr>"
  by (simp add: nestedCallbacksCheck_def duplicateCodeCheck_def)

theorem parse_failure_yields_no_issues_witness:
  "(\<lambda>s. Inl ''Unexpected token (1:4)'') (joinLines [''let = ;'']) = Inl ''Unexpected token (1:4)'' \<and>
   returned (nestedCallbacksCheck (\<lambda>s. Inl ''Unexpected token (1:4)'') [''let = ;'']) = [] \<and>
   console (nestedCallbacksCheck (\<lambda>s. Inl ''Unexpected token (1:4)'') [''let = ;''])
     = [''Error parsing file: Unexpected token (1:4)''] \<and>
   returned (duplicateCodeCheck (\<lambda>s. Inl ''Unexpected token (1:4)'') (\<lambda>t. []) [''let = ;'']) = [] \<and>
   console (duplicateCodeCheck (\<lambda>s. Inl ''Unexpected token (1:4)'') (\<lambda>t. []) [''let = ;''])
     = [''Error parsing file: Unexpected token (1:4)'']"
  using parse_failure_yields_no_issues
    [of "\<lambda>s. Inl ''Unexpected token (1:4)''" "[''let = ;'']" "''Unexpected token (1:4)''" "\<lambda>t. []"]
  by simp

section \<open>Properties of the similarity engine\<close>

lemma cellValue_col0: "cellValue str1 str2 j 0 = j"
  by (cases j) simp_all

lemma first_row:
  "fold (\<lambda>i m. setCell m 0 i i) [0..<k] m j i = (if j = 0 \<and> i < k then Some i else m j i)"
  by (induction k) (auto simp add: setCell_def)

lemma first_column:
  "fold (\<lambda>j m. setCell m j 0 j) [0..<k] m j i = (if i = 0 \<and> j < k then Some j else m j i)"
  by (induction k) (auto simp add: setCell_def)

lemma borders_filled:
  "rowsFilled str1 str2
     (fold (\<lambda>j m. setCell m j 0 j) [0..<length str2 + 1]
        (fold (\<lambda>i m. setCell m 0 i i) [0..<length str1 + 1] (\<lambda>j i. None))) 1"
  unfolding rowsFilled_def first_row first_column
  by (auto simp add: cellValue_col0)

lemma fillCell_step:
  assumes "rowFilling str1 str2 m J I" "1 \<le> J" "1 \<le> I" "I \<le> length str1"
  shows "rowFilling str1 str2 (fillCell str1 str2 J I m) J (Suc I)"
proof -
  obtain j' i' where J: "J = Suc j'" and I: "I = Suc i'"
    using assms(2,3) by (metis Suc_le_D One_nat_def)
  have a: "m J i' = Some (cellValue str1 str2 J i')"
    using assms(1) I by (simp add: rowFilling_def)
  have b: "m j' I = Some (cellValue str1 str2 j' I)"
    using assms(1,4) J by (simp add: rowFilling_def rowsFilled_def)
  have c: "m j' i' = Some (cellValue str1 str2 j' i')"
    using assms(1,4) J I by (simp add: rowFilling_def rowsFilled_def)
  have v: "fillCell str1 str2 J I m = setCell m J I (cellValue str1 str2 J I)"
    using a b c by (simp add: fillCell_def cell_def J I Let_def)
  show ?thesis
    unfolding v using assms(1,3)
    by (auto simp add: rowFilling_def rowsFilled_def setCell_def less_Suc_eq)
qed

lemma inner_loop:
  "k \<le> length str1 \<Longrightarrow> 1 \<le> J \<Longrightarrow> rowFilling str1 str2 m J 1 \<Longrightarrow>
   rowFilling str1 str2 (fold (\<lambda>i. fillCell str1 str2 J i) [1..<Suc k] m) J (Suc k)"
proof (induction k)
  case 0
  then show ?case by simp
next
  case (Suc k)
  then have "rowFilling str1 str2 (fold (\<lambda>i. fillCell str1 str2 J i) [1..<Suc k] m) J (Suc k)"
    by simp
  from fillCell_step [OF this] Suc.prems show ?case by simp
qed

lemma row_start:
  "rowsFilled str1 str2 m J \<Longrightarrow> J \<le> length str2 \<Longrightarrow> rowFilling str1 str2 m J 1"
  by (simp add: rowFilling_def rowsFilled_def)

lemma row_done:
  assumes "rowFilling str1 str2 m J (Suc (length str1))"
  shows "rowsFilled str1 str2 m (Suc J)"
proof -
  have r: "rowsFilled str1 str2 m J"
    and c: "\<And>i. i \<le> length str1 \<Longrightarrow> m J i = Some (cellValue str1 str2 J i)"
    using assms by (simp_all add: rowFilling_def less_Suc_eq_le)
  show ?thesis
    unfolding rowsFilled_def
  proof (intro conjI allI impI)
    fix j i
    assume "j < Suc J \<and> i \<le> length str1"
    then show "m j i = Some (cellValue str1 str2 j i)"
      using r c by (cases "j = J") (auto simp add: rowsFilled_def)
  next
    fix j
    assume "j \<le> length str2"
    then show "m j 0 = Some (cellValue str1 str2 j 0)"
      using r by (simp add: rowsFilled_def)
  qed
qed

lemma outer_loop:
  "k \<le> length str2 \<Longrightarrow> rowsFilled str1 str2 m 1 \<Longrightarrow>
   rowsFilled str1 str2
     (fold (\<lambda>j. fold (\<lambda>i. fillCell str1 str2 j i) [1..<length str1 + 1]) [1..<Suc k] m)
     (Suc k)"
proof (induction k)
  case 0
  then show ?case by simp
next
  case (Suc k)
  let ?m = "fold (\<lambda>j. fold (\<lambda>i. fillCell str1 str2 j i) [1..<length str1 + 1]) [1..<Suc k] m"
  from Suc have "rowsFilled str1 str2 ?m (Suc k)" by simp
  then have "rowFilling str1 str2 ?m (Suc k) 1"
    using Suc.prems(1) by (rule row_start)
  then have "rowFilling str1 str2
      (fold (\<lambda>i. fillCell str1 str2 (Suc k) i) [1..<Suc (length str1)] ?m) (Suc k) (Suc (length str1))"
    by (intro inner_loop) simp_all
  then have "rowsFilled str1 str2
      (fold (\<lambda>i. fillCell str1 str2 (Suc k) i) [1..<Suc (length str1)] ?m) (Suc (Suc k))"
    by (rule row_done)
  then show ?case by simp
qed

lemma levenshteinDistance_cellValue:
  "levenshteinDistance str1 str2 = cellValue str1 str2 (length str2) (length str1)"
proof -
  let ?m2 = "fold (\<lambda>j m. setCell m j 0 j) [0..<length str2 + 1]
        (fold (\<lambda>i m. setCell m 0 i i) [0..<length str1 + 1] (\<lambda>j i. None))"
  let ?m3 = "fold (\<lambda>j. fold (\<lambda>i. fillCell str1 str2 j i) [1..<length str1 + 1])
                    [1..<Suc (length str2)] ?m2"
  have "rowsFilled str1 str2 ?m3 (Suc (length str2))"
    using borders_filled by (intro outer_loop) simp_all
  then have "?m3 (length str2) (length str1) = Some (cellValue str1 str2 (length str2) (length str1))"
    by (simp add: rowsFilled_def)
  then show ?thesis
    by (simp add: levenshteinDistance_def cell_def Let_def)
qed

lemma cellValue_sym: "cellValue str1 str2 j i = cellValue str2 str1 i j"
proof (induction str1 str2 j i rule: cellValue.induct)
  case (1 str1 str2 i)
  then show ?case by (simp add: cellValue_col0)
next
  case (2 str1 str2 j)
  then show ?case by simp
next
  case (3 str1 str2 j i)
  then show ?case by (simp add: min.commute min.left_commute eq_commute)
qed

lemma cellValue_le: "cellValue str1 str2 j i \<le> max j i"
proof (induction str1 str2 j i rule: cellValue.induct)
  case (3 str1 str2 j i)
  have "cellValue str1 str2 (Suc j) (Suc i) \<le> cellValue str1 str2 j i + 1"
    by (simp add: min.coboundedI2)
  with 3(3) show ?case by simp
qed simp_all

lemma levenshteinDistance_sym: "levenshteinDistance a b = levenshteinDistance b a"
  by (simp add: levenshteinDistance_cellValue cellValue_sym [of a b])

lemma levenshteinDistance_le: "levenshteinDistance a b \<le> max (length a) (length b)"
  using cellValue_le [of a b "length b" "length a"]
  by (simp add: levenshteinDistance_cellValue max.commute)

lemma similarity_identical: "similarity (analyzeSimilarity a a) = 1"
  by (simp add: analyzeSimilarity_def)

lemma similarity_short:
  "a \<noteq> b \<Longrightarrow> length a < MIN_DUPLICATE_LENGTH \<or> length b < MIN_DUPLICATE_LENGTH \<Longrightarrow>
   analyzeSimilarity a b = \<lparr>similarity = 0, matches = []\<rparr>"
  by (simp add: analyzeSimilarity_def)

lemma similarity_general:
  "a \<noteq> b \<Longrightarrow> MIN_DUPLICATE_LENGTH \<le> length a \<Longrightarrow> MIN_DUPLICATE_LENGTH \<le> length b \<Longrightarrow>
   similarity (analyzeSimilarity a b) =
     (real (length (longer a b)) - real (levenshteinDistance (longer a b) (shorter a b)))
       / real (length (longer a b))"
  by (simp add: analyzeSimilarity_def Let_def)

lemma matches_general:
  "a \<noteq> b \<Longrightarrow> MIN_DUPLICATE_LENGTH \<le> length a \<Longrightarrow> MIN_DUPLICATE_LENGTH \<le> length b \<Longrightarrow>
   matches (analyzeSimilarity a b) = snd (lineLoop (splitLines a) (splitLines b))"
  by (simp add: analyzeSimilarity_def Let_def)

lemma longer_length: "length (longer a b) = max (length a) (length b)"
  by (simp add: longer_def)

lemma distance_longer_shorter:
  "levenshteinDistance (longer a b) (shorter a b) = levenshteinDistance a b"
  by (simp add: longer_def shorter_def levenshteinDistance_sym [of b a])

text \<open>
  C8. The similarity score does not depend on the order of the two texts.
\<close>

theorem similarity_symmetric:
  "similarity (analyzeSimilarity a b) = similarity (analyzeSimilarity b a)"
proof (cases "a = b")
  case True
  then show ?thesis by simp
next
  case False
  then have ne: "a \<noteq> b" "b \<noteq> a" by auto
  show ?thesis
  proof (cases "length a < MIN_DUPLICATE_LENGTH \<or> length b < MIN_DUPLICATE_LENGTH")
    case True
    then have "length b < MIN_DUPLICATE_LENGTH \<or> length a < MIN_DUPLICATE_LENGTH" by auto
    with True ne show ?thesis by (simp add: similarity_short)
  next
    case False
    then have l: "MIN_DUPLICATE_LENGTH \<le> length a" "MIN_DUPLICATE_LENGTH \<le> length b" by auto
    show ?thesis
      by (simp add: similarity_general ne l longer_length distance_longer_shorter
            max.commute levenshteinDistance_sym [of b a])
  qed
qed

theorem similarity_symmetric_witness:
  "similarity (analyzeSimilarity ''x => 1'' ''yy => 2'') = 4 / 7 \<and>
   similarity (analyzeSimilarity ''yy => 2'' ''x => 1'') = 4 / 7"
proof -
  have h: "MIN_DUPLICATE_LENGTH \<le> length ''x => 1''" "MIN_DUPLICATE_LENGTH \<le> length ''yy => 2''"
    by (simp_all add: MIN_DUPLICATE_LENGTH_def)
  have d: "levenshteinDistance ''yy => 2'' ''x => 1'' = 3"
    by (simp add: levenshteinDistance_cellValue)
  have s: "similarity (analyzeSimilarity ''x => 1'' ''yy => 2'') = 4 / 7"
    using h by (simp add: similarity_general longer_def shorter_def d)
  from similarity_symmetric [of "''x => 1''" "''yy => 2''"] s show ?thesis by simp
qed

text \<open>
  C10. For two texts of at least \<open>MIN_DUPLICATE_LENGTH\<close> characters the divisor of the
  similarity quotient, the length of the longer text, is not zero, and the similarity
  lies between 0 and 1.
\<close>

theorem similarity_in_unit_interval:
  assumes "MIN_DUPLICATE_LENGTH \<le> length a" "MIN_DUPLICATE_LENGTH \<le> length b"
  shows "length (longer a b) \<noteq> 0 \<and>
         0 \<le> similarity (analyzeSimilarity a b) \<and> similarity (analyzeSimilarity a b) \<le> 1"
proof -
  have pos: "0 < length (longer a b)"
    using assms by (simp add: longer_length MIN_DUPLICATE_LENGTH_def)
  show ?thesis
  proof (cases "a = b")
    case True
    with pos show ?thesis by (simp add: similarity_identical)
  next
    case False
    have d: "levenshteinDistance (longer a b) (shorter a b) \<le> length (longer a b)"
      using levenshteinDistance_le [of a b] by (simp add: distance_longer_shorter longer_length)
    from False assms pos d show ?thesis
      by (simp add: similarity_general divide_le_eq_1)
  qed
qed

theorem similarity_in_unit_interval_witness:
  "MIN_DUPLICATE_LENGTH \<le> length ''x => 1'' \<and> MIN_DUPLICATE_LENGTH \<le> length ''y => 2'' \<and>
   similarity (analyzeSimilarity ''x => 1'' ''y => 2'') = 4 / 6 \<and>
   length (longer ''x => 1'' ''y => 2'') \<noteq> 0 \<and>
   0 \<le> similarity (analyzeSimilarity ''x => 1'' ''y => 2'') \<and>
   similarity (analyzeSimilarity ''x => 1'' ''y => 2'') \<le> 1"
proof -
  have h: "MIN_DUPLICATE_LENGTH \<le> length ''x => 1''" "MIN_DUPLICATE_LENGTH \<le> length ''y => 2''"
    by (simp_all add: MIN_DUPLICATE_LENGTH_def)
  have d: "levenshteinDistance ''y => 2'' ''x => 1'' = 2"
    by (simp add: levenshteinDistance_cellValue)
  have s: "similarity (analyzeSimilarity ''x => 1'' ''y => 2'') = 4 / 6"
    using h by (simp add: similarity_general longer_def shorter_def d)
  from similarity_in_unit_interval [OF h] h s show ?thesis by simp
qed

section \<open>Properties of block extraction and of the pair comparison\<close>

lemma enter_recorded:
  "enter n bs = (if recorded n then mapSet (location n) (blockOf n) bs else bs)"
  by (simp add: enter_def recorded_def)

lemma map_of_mapSet: "map_of (mapSet k v bs) = (map_of bs)(k \<mapsto> v)"
  by (induction bs) (auto simp add: fun_upd_twist)

lemma keys_mapSet:
  "map fst (mapSet k v bs) = (if k \<in> set (map fst bs) then map fst bs else map fst bs @ [k])"
proof (induction bs)
  case Nil
  then show ?case by simp
next
  case (Cons e bs)
  obtain k' v' where e: "e = (k', v')" by (cases e)
  show ?case
  proof (cases "k' = k")
    case True
    then show ?thesis by (simp add: e)
  next
    case False
    with Cons show ?thesis by (simp add: e)
  qed
qed

lemma distinct_mapSet: "distinct (map fst bs) \<Longrightarrow> distinct (map fst (mapSet k v bs))"
  by (simp add: keys_mapSet)

lemma set_mapSet: "set (mapSet k v bs) \<subseteq> insert (k, v) (set bs)"
  by (induction bs) (auto split: if_splits)

lemma distinct_enter: "distinct (map fst bs) \<Longrightarrow> distinct (map fst (enter n bs))"
  by (simp add: enter_recorded distinct_mapSet)

lemma distinct_fold_enter:
  "distinct (map fst bs) \<Longrightarrow> distinct (map fst (fold enter ns bs))"
  by (induction ns arbitrary: bs) (simp_all add: distinct_enter)

lemma map_of_fold_enter_other:
  "\<forall>n'\<in>set ns. recorded n' \<longrightarrow> location n' \<noteq> l \<Longrightarrow>
   map_of (fold enter ns bs) l = map_of bs l"
  by (induction ns arbitrary: bs) (auto simp add: enter_recorded map_of_mapSet)

lemma fold_enter_origin:
  "(k, b) \<in> set (fold enter ns bs) \<Longrightarrow>
   (k, b) \<in> set bs \<or> (\<exists>n\<in>set ns. recorded n \<and> k = location n \<and> b = blockOf n)"
proof (induction ns arbitrary: bs)
  case Nil
  then show ?case by simp
next
  case (Cons n ns)
  from Cons.prems have "(k, b) \<in> set (fold enter ns (enter n bs))" by simp
  from Cons.IH [OF this] show ?case
  proof
    assume "(k, b) \<in> set (enter n bs)"
    then show ?thesis
      using set_mapSet [of "location n" "blockOf n" bs]
      by (auto simp add: enter_recorded split: if_splits)
  next
    assume "\<exists>n\<in>set ns. recorded n \<and> k = location n \<and> b = blockOf n"
    then show ?thesis by auto
  qed
qed

lemma fold_invariant:
  "I s \<Longrightarrow> (\<And>x s. x \<in> set xs \<Longrightarrow> I s \<Longrightarrow> I (f x s)) \<Longrightarrow> I (fold f xs s)"
  by (induction xs arbitrary: s) simp_all

lemma comparePair_fromBlocks:
  assumes "e1 \<in> set bs" "e2 \<in> set bs" "\<forall>x\<in>set (snd st). fromBlocks bs x"
  shows "\<forall>x\<in>set (snd (comparePair e1 e2 st)). fromBlocks bs x"
proof -
  obtain l1 b1 l2 b2 p found where e: "e1 = (l1, b1)" "e2 = (l2, b2)" "st = (p, found)"
    by (cases e1, cases e2, cases st) auto
  have new: "fromBlocks bs
       \<lparr>dline = dl, percent = pc,
        block1 = \<lparr>startLine = l1, rtype = btype b1, rname = name b1\<rparr>,
        block2 = \<lparr>startLine = l2, rtype = btype b2, rname = name b2\<rparr>,
        similarLines = sl\<rparr>" for dl pc sl
    unfolding fromBlocks_def using assms(1,2) e by force
  show ?thesis
    using assms(3) new by (auto simp add: comparePair_def e Let_def)
qed

lemma compareBlocks_fromBlocks: "\<forall>x\<in>set (compareBlocks bs). fromBlocks bs x"
proof -
  let ?I = "\<lambda>st :: pairState. \<forall>x\<in>set (snd st). fromBlocks bs x"
  have inner: "?I (fold (\<lambda>e2. comparePair e1 e2) bs st)" if "e1 \<in> set bs" "?I st" for e1 st
    using that(2)
  proof (rule fold_invariant [where I = ?I])
    fix e2 s
    assume "e2 \<in> set bs" "?I s"
    with that(1) show "?I (comparePair e1 e2 s)"
      by (intro comparePair_fromBlocks)
  qed
  have "?I (fold (\<lambda>e1. fold (\<lambda>e2. comparePair e1 e2) bs) bs ({}, []))"
  proof (rule fold_invariant [where I = ?I])
    show "?I ({}, [])" by simp
  next
    fix e1 s
    assume "e1 \<in> set bs" "?I s"
    then show "?I (fold (\<lambda>e2. comparePair e1 e2) bs s)" by (rule inner)
  qed
  then show ?thesis by (simp add: compareBlocks_def)
qed

lemma collected_blocks_long:
  "e \<in> set (collectBlocks nodes) \<Longrightarrow> MIN_DUPLICATE_LENGTH \<le> length (code (snd e))"
proof -
  assume "e \<in> set (collectBlocks nodes)"
  then have "(fst e, snd e) \<in> set (fold enter nodes [])"
    by (simp add: collectBlocks_def)
  from fold_enter_origin [OF this]
  obtain n where "recorded n" "snd e = blockOf n" by auto
  then show ?thesis by (simp add: recorded_def blockOf_def)
qed

text \<open>
  C7. A block whose generated text is shorter than \<open>MIN_DUPLICATE_LENGTH\<close> is in no
  issue of the duplicate check of any source unit. Such a block is dropped at extraction:
  every collected block, and so every text that the pair loop hands to
  \<open>analyzeSimilarity\<close>, has at least \<open>MIN_DUPLICATE_LENGTH\<close> characters, and both blocks of
  every issue are those of entered nodes with such a text. The length guard of
  \<open>analyzeSimilarity\<close> gives similarity 0 for two different texts one of which is
  shorter (equal texts take the shortcut for identical strings before the guard, which
  by the first part no source unit reaches with a short text).
\<close>

theorem short_blocks_never_reported:
  "(parse (joinLines lines) = Inr tree \<longrightarrow>
      (\<forall>e\<in>set (collectBlocks (traverse tree)).
         MIN_DUPLICATE_LENGTH \<le> length (code (snd e))) \<and>
      (\<forall>x\<in>set (returned (duplicateCodeCheck parse traverse lines)).
         \<exists>n1\<in>set (traverse tree). \<exists>n2\<in>set (traverse tree).
           MIN_DUPLICATE_LENGTH \<le> length (generated n1) \<and>
           MIN_DUPLICATE_LENGTH \<le> length (generated n2) \<and>
           block1 x = \<lparr>startLine = location n1, rtype = etype n1, rname = name (blockOf n1)\<rparr> \<and>
           block2 x = \<lparr>startLine = location n2, rtype = etype n2, rname = name (blockOf n2)\<rparr>)) \<and>
   (str1 \<noteq> str2 \<and> (length str1 < MIN_DUPLICATE_LENGTH \<or> length str2 < MIN_DUPLICATE_LENGTH) \<longrightarrow>
      similarity (analyzeSimilarity str1 str2) = 0)"
proof (intro conjI impI ballI)
  fix e
  assume "e \<in> set (collectBlocks (traverse tree))"
  then show "MIN_DUPLICATE_LENGTH \<le> length (code (snd e))"
    by (rule collected_blocks_long)
next
  fix x
  assume p: "parse (joinLines lines) = Inr tree"
    and "x \<in> set (returned (duplicateCodeCheck parse traverse lines))"
  then have "x \<in> set (compareBlocks (collectBlocks (traverse tree)))"
    by (simp add: duplicateCodeCheck_def)
  with compareBlocks_fromBlocks have "fromBlocks (collectBlocks (traverse tree)) x" by blast
  then obtain e1 e2 where
    e1: "e1 \<in> set (collectBlocks (traverse tree))" and
    e2: "e2 \<in> set (collectBlocks (traverse tree))" and
    b1: "block1 x = \<lparr>startLine = fst e1, rtype = btype (snd e1), rname = name (snd e1)\<rparr>" and
    b2: "block2 x = \<lparr>startLine = fst e2, rtype = btype (snd e2), rname = name (snd e2)\<rparr>"
    unfolding fromBlocks_def by blast
  from e1 fold_enter_origin [of "fst e1" "snd e1" "traverse tree" "[]"]
  obtain n1 where n1: "n1 \<in> set (traverse tree)" "recorded n1" "fst e1 = location n1"
      "snd e1 = blockOf n1"
    by (auto simp add: collectBlocks_def)
  from e2 fold_enter_origin [of "fst e2" "snd e2" "traverse tree" "[]"]
  obtain n2 where n2: "n2 \<in> set (traverse tree)" "recorded n2" "fst e2 = location n2"
      "snd e2 = blockOf n2"
    by (auto simp add: collectBlocks_def)
  have t: "btype (blockOf n) = etype n" for n by (simp add: blockOf_def)
  show "\<exists>n1\<in>set (traverse tree). \<exists>n2\<in>set (traverse tree).
           MIN_DUPLICATE_LENGTH \<le> length (generated n1) \<and>
           MIN_DUPLICATE_LENGTH \<le> length (generated n2) \<and>
           block1 x = \<lparr>startLine = location n1, rtype = etype n1, rname = name (blockOf n1)\<rparr> \<and>
           block2 x = \<lparr>startLine = location n2, rtype = etype n2, rname = name (blockOf n2)\<rparr>"
    using n1 n2 b1 b2 by (intro bexI [of _ n1] bexI [of _ n2]) (simp_all add: recorded_def t)
next
  assume "str1 \<noteq> str2 \<and> (length str1 < MIN_DUPLICATE_LENGTH \<or> length str2 < MIN_DUPLICATE_LENGTH)"
  then show "similarity (analyzeSimilarity str1 str2) = 0"
    by (simp add: similarity_short)
qed

text \<open>
  C9. The collected blocks hold at most one block per start line, and the block stored
  for a line is that of the last recorded node starting there: a recorded node \<open>n\<close>
  overwrites whatever the earlier nodes stored for its line, and it stays unless a later
  recorded node starts on the same line.
\<close>

theorem last_block_per_line:
  assumes "recorded n" "\<forall>n'\<in>set later. recorded n' \<longrightarrow> location n' \<noteq> location n"
  shows "distinct (map fst (collectBlocks (earlier @ n # later))) \<and>
         map_of (collectBlocks (earlier @ n # later)) (location n) = Some (blockOf n)"
proof
  show "distinct (map fst (collectBlocks (earlier @ n # later)))"
    by (simp only: collectBlocks_def distinct_fold_enter list.map distinct.simps)
next
  have "map_of (collectBlocks (earlier @ n # later)) (location n) =
        map_of (enter n (fold enter earlier [])) (location n)"
    using assms(2) by (simp add: collectBlocks_def map_of_fold_enter_other)
  also have "\<dots> = Some (blockOf n)"
    using assms(1) by (simp add: enter_recorded map_of_mapSet)
  finally show "map_of (collectBlocks (earlier @ n # later)) (location n) = Some (blockOf n)" .
qed

lemmas duplicate_eval =
  duplicateCodeCheck_def collectBlocks_def compareBlocks_def comparePair_def enter_def
  isBlockNode_def location_def blockOf_def MIN_DUPLICATE_LENGTH_def SIMILARITY_THRESHOLD_def
  pairKey_def toString.simps toLineMapping_def analyzeSimilarity_def Let_def

text \<open>
  C1. Three identical arrow functions of six lines at lines 1, 8 and 15 give three
  issues, one per unordered pair, each with similarity 100 percent and one entry in
  \<^verbatim>\<open>similarLines\<close>. That entry does not span the six lines: for identical texts
  \<open>analyzeSimilarity\<close> returns \<^verbatim>\<open>[[str1, str2]]\<close>, and indexing the two strings yields
  their first, second and third characters where line numbers and line text belong.
\<close>

theorem identical_blocks_cluster_holds_characters:
  "returned (duplicateCodeCheck (\<lambda>s. Inr exampleAst) (\<lambda>t. threeArrowCopies) []) =
     [\<lparr>dline = 1, percent = 100,
       block1 = \<lparr>startLine = 1, rtype = ''ArrowFunctionExpression'', rname = ''anonymous''\<rparr>,
       block2 = \<lparr>startLine = 8, rtype = ''ArrowFunctionExpression'', rname = ''anonymous''\<rparr>,
       similarLines =
         [\<lparr>block1Lines = [Str ''('', Str ''(''], block2Lines = [Str '')'', Str '')''],
           codeLines = [Str '' '', Str '' '']\<rparr>]\<rparr>,
      \<lparr>dline = 1, percent = 100,
       block1 = \<lparr>startLine = 1, rtype = ''ArrowFunctionExpression'', rname = ''anonymous''\<rparr>,
       block2 = \<lparr>startLine = 15, rtype = ''ArrowFunctionExpression'', rname = ''anonymous''\<rparr>,
       similarLines =
         [\<lparr>block1Lines = [Str ''('', Str ''(''], block2Lines = [Str '')'', Str '')''],
           codeLines = [Str '' '', Str '' '']\<rparr>]\<rparr>,
      \<lparr>dline = 8, percent = 100,
       block1 = \<lparr>startLine = 8, rtype = ''ArrowFunctionExpression'', rname = ''anonymous''\<rparr>,
       block2 = \<lparr>startLine = 15, rtype = ''ArrowFunctionExpression'', rname = ''anonymous''\<rparr>,
       similarLines =
         [\<lparr>block1Lines = [Str ''('', Str ''(''], block2Lines = [Str '')'', Str '')''],
           codeLines = [Str '' '', Str '' '']\<rparr>]\<rparr>] \<and>
   length (splitLines arrowCopy) = 6 \<and>
   analyzeSimilarity arrowCopy arrowCopy =
     \<lparr>similarity = 1, matches = [[Text arrowCopy, Text arrowCopy]]\<rparr>"
  by (simp add: duplicate_eval threeArrowCopies_def arrowCopy_def splitLines_def)

text \<open>
  C5. For \<open>blockF\<close> and \<open>blockG\<close> the line loop ends with a running match of two
  entries, line 5 of \<open>blockF\<close> against lines 4 and 5 of \<open>blockG\<close>, that ends at the last
  pair of lines. The loop stores a run only when a later pair differs, so this run is
  not among the reported matches.
\<close>

theorem final_run_not_reported:
  "lineLoop (splitLines blockF) (splitLines blockG) =
     ([LinePair 5 4 ''}'', LinePair 5 5 ''}''], [[LinePair 4 4 ''}'', LinePair 4 5 ''}'']]) \<and>
   matches (analyzeSimilarity blockF blockG) = [[LinePair 4 4 ''}'', LinePair 4 5 ''}'']]"
proof -
  have l: "lineLoop (splitLines blockF) (splitLines blockG) =
     ([LinePair 5 4 ''}'', LinePair 5 5 ''}''], [[LinePair 4 4 ''}'', LinePair 4 5 ''}'']])"
    by (simp add: blockF_def blockG_def lineLoop_def splitLines_def compareLines_def trim_def
          isWhiteSpace_def)
  have "blockF \<noteq> blockG" "MIN_DUPLICATE_LENGTH \<le> length blockF"
      "MIN_DUPLICATE_LENGTH \<le> length blockG"
    by (simp_all add: blockF_def blockG_def MIN_DUPLICATE_LENGTH_def)
  then have "matches (analyzeSimilarity blockF blockG) =
      snd (lineLoop (splitLines blockF) (splitLines blockG))"
    by (rule matches_general)
  with l show ?thesis by simp
qed

theorem short_blocks_never_reported_witness:
  "(\<lambda>s. Inr exampleAst) (joinLines []) = Inr exampleAst \<and>
   map fst (collectBlocks shortAndTwins) = [2, 6] \<and>
   MIN_DUPLICATE_LENGTH \<le> length (code (snd (hd (collectBlocks shortAndTwins)))) \<and>
   returned (duplicateCodeCheck (\<lambda>s. Inr exampleAst) (\<lambda>t. shortAndTwins) []) =
     [\<lparr>dline = 2, percent = 100,
       block1 = \<lparr>startLine = 2, rtype = ''FunctionDeclaration'', rname = ''f''\<rparr>,
       block2 = \<lparr>startLine = 6, rtype = ''ClassMethod'', rname = ''anonymous''\<rparr>,
       similarLines =
         [\<lparr>block1Lines = [Str ''f'', Str ''f''], block2Lines = [Str ''u'', Str ''u''],
           codeLines = [Str ''n'', Str ''n'']\<rparr>]\<rparr>] \<and>
   (\<exists>n1\<in>set shortAndTwins. \<exists>n2\<in>set shortAndTwins.
      MIN_DUPLICATE_LENGTH \<le> length (generated n1) \<and>
      MIN_DUPLICATE_LENGTH \<le> length (generated n2) \<and>
      block1 (hd (returned (duplicateCodeCheck (\<lambda>s. Inr exampleAst) (\<lambda>t. shortAndTwins) []))) =
        \<lparr>startLine = location n1, rtype = etype n1, rname = name (blockOf n1)\<rparr> \<and>
      block2 (hd (returned (duplicateCodeCheck (\<lambda>s. Inr exampleAst) (\<lambda>t. shortAndTwins) []))) =
        \<lparr>startLine = location n2, rtype = etype n2, rname = name (blockOf n2)\<rparr>) \<and>
   ''a=>b'' \<noteq> ''function f() {}'' \<and> length ''a=>b'' < MIN_DUPLICATE_LENGTH \<and>
   similarity (analyzeSimilarity ''a=>b'' ''function f() {}'') = 0"
proof -
  let ?out = "returned (duplicateCodeCheck (\<lambda>s. Inr exampleAst) (\<lambda>t. shortAndTwins) [])"
  have p: "(\<lambda>s. Inr exampleAst) (joinLines []) = Inr exampleAst" by simp
  have k: "map fst (collectBlocks shortAndTwins) = [2, 6]"
    by (simp add: duplicate_eval shortAndTwins_def)
  then have c: "hd (collectBlocks shortAndTwins) \<in> set (collectBlocks shortAndTwins)"
    by (cases "collectBlocks shortAndTwins") simp_all
  have r: "?out =
     [\<lparr>dline = 2, percent = 100,
       block1 = \<lparr>startLine = 2, rtype = ''FunctionDeclaration'', rname = ''f''\<rparr>,
       block2 = \<lparr>startLine = 6, rtype = ''ClassMethod'', rname = ''anonymous''\<rparr>,
       similarLines =
         [\<lparr>block1Lines = [Str ''f'', Str ''f''], block2Lines = [Str ''u'', Str ''u''],
           codeLines = [Str ''n'', Str ''n'']\<rparr>]\<rparr>]"
    by (simp add: duplicate_eval shortAndTwins_def)
  then have m: "hd ?out \<in> set ?out" by simp
  have s: "''a=>b'' \<noteq> ''function f() {}'' \<and>
      (length ''a=>b'' < MIN_DUPLICATE_LENGTH \<or> length ''function f() {}'' < MIN_DUPLICATE_LENGTH)"
    by (simp add: MIN_DUPLICATE_LENGTH_def)
  have l: "length ''a=>b'' < MIN_DUPLICATE_LENGTH"
    by (simp add: MIN_DUPLICATE_LENGTH_def)
  note t = short_blocks_never_reported
    [of "\<lambda>s. Inr exampleAst" "[]" exampleAst "\<lambda>t. shortAndTwins" "''a=>b''" "''function f() {}''"]
  from t p c have a: "MIN_DUPLICATE_LENGTH \<le> length (code (snd (hd (collectBlocks shortAndTwins))))"
    by blast
  from t p m have e: "\<exists>n1\<in>set shortAndTwins. \<exists>n2\<in>set shortAndTwins.
      MIN_DUPLICATE_LENGTH \<le> length (generated n1) \<and>
      MIN_DUPLICATE_LENGTH \<le> length (generated n2) \<and>
      block1 (hd ?out) =
        \<lparr>startLine = location n1, rtype = etype n1, rname = name (blockOf n1)\<rparr> \<and>
      block2 (hd ?out) =
        \<lparr>startLine = location n2, rtype = etype n2, rname = name (blockOf n2)\<rparr>"
    by blast
  from t s have z: "similarity (analyzeSimilarity ''a=>b'' ''function f() {}'') = 0"
    by blast
  from p k a r e s l z show ?thesis by blast
qed

theorem last_block_per_line_witness:
  "recorded arrowOnLine1 \<and> \<not> recorded literalOnLine1 \<and>
   collectBlocks ([methodOnLine1] @ arrowOnLine1 # [literalOnLine1]) =
     [(1, \<lparr>code = ''() => 1'', btype = ''ArrowFunctionExpression'', name = ''anonymous''\<rparr>)] \<and>
   distinct (map fst (collectBlocks ([methodOnLine1] @ arrowOnLine1 # [literalOnLine1]))) \<and>
   map_of (collectBlocks ([methodOnLine1] @ arrowOnLine1 # [literalOnLine1]))
     (location arrowOnLine1) = Some (blockOf arrowOnLine1)"
proof -
  have a: "recorded arrowOnLine1"
    by (simp add: recorded_def arrowOnLine1_def isBlockNode_def MIN_DUPLICATE_LENGTH_def)
  have n: "\<not> recorded literalOnLine1"
    by (simp add: recorded_def literalOnLine1_def isBlockNode_def)
  then have b: "\<forall>n'\<in>set [literalOnLine1]. recorded n' \<longrightarrow> location n' \<noteq> location arrowOnLine1"
    by simp
  have c: "collectBlocks ([methodOnLine1] @ arrowOnLine1 # [literalOnLine1]) =
     [(1, \<lparr>code = ''() => 1'', btype = ''ArrowFunctionExpression'', name = ''anonymous''\<rparr>)]"
    by (simp add: duplicate_eval methodOnLine1_def arrowOnLine1_def literalOnLine1_def)
  from last_block_per_line [OF a b, of "[methodOnLine1]"] a n c show ?thesis by simp
qed

end
